theory Spec2Isabelle
  imports Main
begin

section \<open>Python values and exceptions\<close>

text \<open>
  The ingestion scripts raise and catch ordinary Python exceptions. Every \<^verbatim>\<open>raise\<close> of the
  source is a value of \<open>pyexc\<close>; a function that can raise returns \<open>pyexc + 'a\<close>.
\<close>

datatype pyexc =
    ValueError
  | TypeError
  | DatabaseError
  | NoResult

text \<open>
  Property values as \<^verbatim>\<open>json.dumps\<close> sees them (\<^verbatim>\<open>ingestion.py\<close>). Strings are lists of code
  points below 256. A float is given by the text that \<^verbatim>\<open>json.dumps\<close> writes for it, a
  datetime by the text of its \<^verbatim>\<open>isoformat()\<close>; \<open>PObj\<close> is any other object (a date, a
  UUID, ...), which \<^verbatim>\<open>json.dumps\<close> refuses.
\<close>

datatype pyval =
    PStr string
  | PInt int
  | PFloat string
  | PBool bool
  | PNone
  | PDatetime string
  | PList "pyval list"
  | PTuple "pyval list"
  | PDict "(string \<times> pyval) list"
  | PObj string

type_synonym props = "(string \<times> pyval) list"

section \<open>Decimal and hexadecimal text\<close>

definition digit_char :: "nat \<Rightarrow> char" where
  "digit_char d = ''0123456789'' ! d"

fun show_nat :: "nat \<Rightarrow> string" where
  "show_nat n = (if n < 10 then [digit_char n] else show_nat (n div 10) @ [digit_char (n mod 10)])"

declare show_nat.simps [simp del]

definition show_int :: "int \<Rightarrow> string" where
  "show_int i = (if i < 0 then CHR ''-'' # show_nat (nat (- i)) else show_nat (nat i))"

definition hex_char :: "nat \<Rightarrow> char" where
  "hex_char d = ''0123456789abcdef'' ! d"

section \<open>The property encoders\<close>

subsection \<open>\<^verbatim>\<open>json.dumps\<close> with its defaults (\<^verbatim>\<open>ensure_ascii=True\<close>)\<close>

definition dquote :: char where "dquote = CHR 0x22"
definition squote :: char where "squote = CHR 0x27"
definition backslash :: char where "backslash = CHR 0x5C"

definition json_escape_char :: "char \<Rightarrow> string" where
  "json_escape_char c =
     (if c = dquote then [backslash, dquote]
      else if c = backslash then [backslash, backslash]
      else if c = CHR 0x0A then [backslash, CHR ''n'']
      else if c = CHR 0x0D then [backslash, CHR ''r'']
      else if c = CHR 0x09 then [backslash, CHR ''t'']
      else if c = CHR 0x08 then [backslash, CHR ''b'']
      else if c = CHR 0x0C then [backslash, CHR ''f'']
      else if (of_char c :: nat) < 32 \<or> 126 < (of_char c :: nat)
        then [backslash, CHR ''u'', CHR ''0'', CHR ''0'',
              hex_char (of_char c div 16), hex_char (of_char c mod 16)]
      else [c])"

definition json_string :: "string \<Rightarrow> string" where
  "json_string s = dquote # concat (map json_escape_char s) @ [dquote]"

fun join :: "string \<Rightarrow> string list \<Rightarrow> string" where
  "join sep [] = []"
| "join sep [x] = x"
| "join sep (x # y # ys) = x @ sep @ join sep (y # ys)"

text \<open>Which values \<^verbatim>\<open>json.dumps\<close> serialises; on any other it raises \<^verbatim>\<open>TypeError\<close>.\<close>

fun json_ok :: "pyval \<Rightarrow> bool" where
  "json_ok (PStr s) = True"
| "json_ok (PInt i) = True"
| "json_ok (PFloat r) = True"
| "json_ok (PBool b) = True"
| "json_ok PNone = True"
| "json_ok (PDatetime t) = False"
| "json_ok (PList xs) = list_all json_ok xs"
| "json_ok (PTuple xs) = list_all json_ok xs"
| "json_ok (PDict kvs) = list_all (\<lambda>kv. json_ok (snd kv)) kvs"
| "json_ok (PObj t) = False"

text \<open>The text of a value that is serialised (the default separators are used).\<close>

fun json_text :: "pyval \<Rightarrow> string" where
  "json_text (PStr s) = json_string s"
| "json_text (PInt i) = show_int i"
| "json_text (PFloat r) = r"
| "json_text (PBool b) = (if b then ''true'' else ''false'')"
| "json_text PNone = ''null''"
| "json_text (PDatetime t) = []"
| "json_text (PList xs) = ''['' @ join '', '' (map json_text xs) @ '']''"
| "json_text (PTuple xs) = ''['' @ join '', '' (map json_text xs) @ '']''"
| "json_text (PDict kvs) =
     ''{'' @ join '', '' (map (\<lambda>kv. json_string (fst kv) @ '': '' @ json_text (snd kv)) kvs) @ ''}''"
| "json_text (PObj t) = []"

definition json_dumps :: "pyval \<Rightarrow> pyexc + string" where
  "json_dumps v = (if json_ok v then Inr (json_text v) else Inl TypeError)"

text \<open>
  \<^verbatim>\<open>AGEGraphIngestion._convert_properties_to_agtype\<close> (\<^verbatim>\<open>ingestion.py\<close>, lines 71-85): a
  top-level datetime becomes its ISO text, a top-level list or tuple becomes a list, every
  other value is passed on as it is, and the converted dictionary is dumped.
\<close>

fun convert_value :: "pyval \<Rightarrow> pyval" where
  "convert_value (PDatetime t) = PStr t"
| "convert_value (PList xs) = PList xs"
| "convert_value (PTuple xs) = PList xs"
| "convert_value v = v"

definition convert_properties_to_agtype :: "props \<Rightarrow> pyexc + string" where
  "convert_properties_to_agtype properties =
     json_dumps (PDict (map (\<lambda>kv. (fst kv, convert_value (snd kv))) properties))"

subsection \<open>The Cypher property-map encoders built from f-strings\<close>

text \<open>
  \<^verbatim>\<open>_format_props_for_cypher_map\<close> branches on the type of each value and uses only the text
  that \<^verbatim>\<open>str()\<close> or \<^verbatim>\<open>isoformat()\<close> gives for it. A value is therefore given by the branch
  it takes together with that text: \<open>CFloat\<close> carries the text of the float, \<open>CDate\<close> the
  ISO text of a date or datetime, \<open>COther\<close> the \<^verbatim>\<open>str()\<close> of any other object.
\<close>

datatype cyval =
    CStr string
  | CInt int
  | CFloat string
  | CBool bool
  | CDate string
  | COther string

text \<open>\<^verbatim>\<open>value.replace("'", "\\'")\<close>: a backslash is put before every single quote.\<close>

definition escape_single_quotes :: "string \<Rightarrow> string" where
  "escape_single_quotes v = concat (map (\<lambda>c. if c = squote then [backslash, squote] else [c]) v)"

text \<open>The quoted literal \<^verbatim>\<open>'{escaped_value}'\<close> of the f-strings.\<close>

definition cypher_quote :: "string \<Rightarrow> string" where
  "cypher_quote v = squote # escape_single_quotes v @ [squote]"

fun format_prop :: "string \<times> cyval \<Rightarrow> string" where
  "format_prop (key, CStr v) = key @ '': '' @ cypher_quote v"
| "format_prop (key, CInt i) = key @ '': '' @ show_int i"
| "format_prop (key, CFloat r) = key @ '': '' @ r"
| "format_prop (key, CBool b) = key @ '': '' @ (if b then ''True'' else ''False'')"
| "format_prop (key, CDate t) = key @ '': '' @ squote # t @ [squote]"
| "format_prop (key, COther t) = key @ '': '' @ cypher_quote t"

definition format_props_for_cypher_map :: "(string \<times> cyval) list \<Rightarrow> string" where
  "format_props_for_cypher_map properties = join '', '' (map format_prop properties)"

text \<open>
  \<^verbatim>\<open>age_ingestion3.py\<close>, lines 153-155: \<^verbatim>\<open>', '.join([f"{k}: '{v}'" for k, v in ...])\<close>. The
  value enters by its \<^verbatim>\<open>str()\<close> text, with no escaping at all.
\<close>

definition quote_props :: "(string \<times> string) list \<Rightarrow> string" where
  "quote_props properties =
     join '', '' (map (\<lambda>kv. fst kv @ '': '' @ squote # snd kv @ [squote]) properties)"

subsection \<open>How the query language reads a quoted literal\<close>

text \<open>
  The store's Cypher scanner reads a single-quoted string literal from the character after
  the opening quote: a backslash takes the next character with it, and the first quote that
  is not taken by a backslash closes the literal. \<open>scan_quoted q\<close> returns the raw body of
  the literal and the text left after the closing quote \<open>q\<close>, or \<open>None\<close> when the literal
  is not closed.
\<close>

fun scan_quoted :: "char \<Rightarrow> string \<Rightarrow> (string \<times> string) option" where
  "scan_quoted q [] = None"
| "scan_quoted q [c] = (if c = q then Some ([], []) else None)"
| "scan_quoted q (c # d # cs) =
     (if c = q then Some ([], d # cs)
      else if c = backslash
        then map_option (\<lambda>br. (c # d # fst br, snd br)) (scan_quoted q cs)
      else map_option (\<lambda>br. (c # fst br, snd br)) (scan_quoted q (d # cs)))"

text \<open>
  A quoted literal embeds its value when the scanner, started after the opening quote,
  closes the literal exactly at its last character and leaves the following text alone.
\<close>

definition embeds_value :: "char \<Rightarrow> string \<Rightarrow> bool" where
  "embeds_value q lit =
     (case lit of
        [] \<Rightarrow> False
      | c # body \<Rightarrow> c = q \<and> body \<noteq> [] \<and> scan_quoted q body = Some (butlast body, []))"

section \<open>The ingestion session (\<^verbatim>\<open>ingestion.py\<close>)\<close>

record vertex_data =
  label :: string
  properties :: props
  external_id :: "string option"

text \<open>\<^verbatim>\<open>Union[int, str]\<close>: an endpoint is an internal identifier or an external one.\<close>

datatype vertex_ref = AgeId int | ExternalId string

record edge_data =
  edge_label :: string
  start_vertex_id :: vertex_ref
  end_vertex_id :: vertex_ref
  edge_properties :: props
  start_vertex_label :: "string option"
  end_vertex_label :: "string option"

text \<open>
  The statements that the session passes to \<^verbatim>\<open>cur.execute\<close>, with the pieces that the
  f-strings interpolate: the graph name, the label and the encoded properties.
  \<^item> \<open>CreateVertex g l p\<close>: \<^verbatim>\<open>CREATE (v:l p) RETURN id(v)\<close> (\<^verbatim>\<open>ingest_vertex\<close>);
  \<^item> \<open>CreateEdge g a b l p\<close>: \<^verbatim>\<open>MATCH (a), (b) WHERE id(a) = a AND id(b) = b
    CREATE (a)-[r:l p]->(b) RETURN id(r)\<close> (\<^verbatim>\<open>ingest_edge\<close>);
  \<^item> \<open>MatchExternalId g l x\<close>: \<^verbatim>\<open>MATCH (v:l) WHERE v.external_id = 'x' RETURN id(v)\<close>
    (\<^verbatim>\<open>_resolve_vertex_id\<close>);
  \<^item> \<open>MergeVertex g l p\<close>: \<^verbatim>\<open>MERGE (v:l p) RETURN id(v)\<close>, the statement of the triplet
    scripts (\<^verbatim>\<open>age_ingestion2.py\<close>, \<^verbatim>\<open>gem_schema_part_indx.py\<close>).
\<close>

datatype query =
    CreateVertex string string string
  | CreateEdge string int int string string
  | MatchExternalId string string string
  | MergeVertex string string string

text \<open>
  The store behind the cursor is a parameter: executing a statement either raises, and then
  leaves the store as it was (the connection is in autocommit mode), or gives the next store
  and the rows of the result, each row by its first column, read as an integer
  (\<^verbatim>\<open>int(result[0])\<close>).
\<close>

type_synonym 'st cursor = "query \<Rightarrow> 'st \<Rightarrow> pyexc + ('st \<times> int list)"

text \<open>
  The object state: the store, \<^verbatim>\<open>self.vertex_id_mapping\<close>, and the list of the statements
  executed so far, oldest first.
\<close>

record 'st session =
  graph_name :: string
  store :: 'st
  vertex_id_mapping :: "string \<rightharpoonup> int"
  issued :: "query list"

definition execute :: "'st cursor \<Rightarrow> query \<Rightarrow> 'st session \<Rightarrow> (pyexc + int list) \<times> 'st session" where
  "execute ex q s =
     (case ex q (store s) of
        Inl e \<Rightarrow> (Inl e, s\<lparr>issued := issued s @ [q]\<rparr>)
      | Inr (st', rows) \<Rightarrow> (Inr rows, s\<lparr>store := st', issued := issued s @ [q]\<rparr>))"

definition fetchone :: "int list \<Rightarrow> int option" where
  "fetchone rows = (case rows of [] \<Rightarrow> None | r # _ \<Rightarrow> Some r)"

text \<open>Python truthiness of an optional string: \<^verbatim>\<open>None\<close> and the empty string are false.\<close>

definition truthy :: "string option \<Rightarrow> bool" where
  "truthy x = (case x of None \<Rightarrow> False | Some t \<Rightarrow> t \<noteq> [])"

text \<open>
  \<^verbatim>\<open>ingest_vertex\<close> (lines 87-116). Every exception is logged and raised again. Indexing the
  \<^verbatim>\<open>None\<close> that \<^verbatim>\<open>fetchone\<close> gives for an empty result raises \<^verbatim>\<open>TypeError\<close>.
\<close>

definition ingest_vertex :: "'st cursor \<Rightarrow> vertex_data \<Rightarrow> 'st session \<Rightarrow> (pyexc + int) \<times> 'st session" where
  "ingest_vertex ex vertex_data s =
     (case convert_properties_to_agtype (properties vertex_data) of
        Inl e \<Rightarrow> (Inl e, s)
      | Inr properties_json \<Rightarrow>
          (case execute ex (CreateVertex (graph_name s) (label vertex_data) properties_json) s of
             (Inl e, s1) \<Rightarrow> (Inl e, s1)
           | (Inr rows, s1) \<Rightarrow>
               (case fetchone rows of
                  None \<Rightarrow> (Inl TypeError, s1)
                | Some vertex_id \<Rightarrow>
                    (Inr vertex_id,
                     if truthy (external_id vertex_data)
                     then s1\<lparr>vertex_id_mapping :=
                            (vertex_id_mapping s1)(the (external_id vertex_data) \<mapsto> vertex_id)\<rparr>
                     else s1))))"

text \<open>
  \<^verbatim>\<open>_resolve_vertex_id\<close> (lines 206-234). An exception of the lookup is logged and
  swallowed; every path that does not return ends in \<^verbatim>\<open>raise ValueError\<close>.
\<close>

definition resolve_vertex_id ::
  "'st cursor \<Rightarrow> vertex_ref \<Rightarrow> string option \<Rightarrow> 'st session \<Rightarrow> (pyexc + int) \<times> 'st session" where
  "resolve_vertex_id ex vertex_id vertex_label s =
     (case vertex_id of
        AgeId i \<Rightarrow> (Inr i, s)
      | ExternalId x \<Rightarrow>
          (case vertex_id_mapping s x of
             Some i \<Rightarrow> (Inr i, s)
           | None \<Rightarrow>
               if truthy vertex_label
               then (case execute ex (MatchExternalId (graph_name s) (the vertex_label) x) s of
                       (Inl e, s1) \<Rightarrow> (Inl ValueError, s1)
                     | (Inr rows, s1) \<Rightarrow>
                         (case fetchone rows of
                            Some age_id \<Rightarrow>
                              (Inr age_id,
                               s1\<lparr>vertex_id_mapping := (vertex_id_mapping s1)(x \<mapsto> age_id)\<rparr>)
                          | None \<Rightarrow> (Inl ValueError, s1)))
               else (Inl ValueError, s)))"


subsection \<open>The batch loops\<close>

text \<open>
  \<^verbatim>\<open>range(0, n, step)\<close>: a zero step raises \<^verbatim>\<open>ValueError\<close>, a negative step gives the
  empty range (the start \<open>0\<close> is not above \<open>n\<close>), a positive step gives
  \<open>0, step, 2 * step, ...\<close> below \<open>n\<close>.
\<close>

definition py_range0 :: "nat \<Rightarrow> int \<Rightarrow> pyexc + nat list" where
  "py_range0 n step =
     (if step = 0 then Inl ValueError
      else if step < 0 then Inr []
      else Inr (map (\<lambda>k. k * nat step) [0 ..< (n + nat step - 1) div nat step]))"

text \<open>The slice \<^verbatim>\<open>items[i:i + batch_size]\<close> for \<open>0 \<le> i\<close> and \<open>0 < batch_size\<close>.\<close>

definition slice :: "'a list \<Rightarrow> nat \<Rightarrow> nat \<Rightarrow> 'a list" where
  "slice items i batch_size = take batch_size (drop i items)"

text \<open>
  The inner loop: each item is ingested inside its own \<^verbatim>\<open>try\<close>; an exception appends
  \<^verbatim>\<open>None\<close> and the loop goes on with the state that the failed call left.
\<close>

definition outcome_of :: "pyexc + int \<Rightarrow> int option" where
  "outcome_of r = (case r of Inl e \<Rightarrow> None | Inr i \<Rightarrow> Some i)"

fun ingest_batch_items ::
  "('a \<Rightarrow> 'st session \<Rightarrow> (pyexc + int) \<times> 'st session) \<Rightarrow> 'a list \<Rightarrow> 'st session
     \<Rightarrow> int option list \<times> 'st session" where
  "ingest_batch_items f [] s = ([], s)"
| "ingest_batch_items f (x # xs) s =
     (case f x s of
        (r, s1) \<Rightarrow>
          (case ingest_batch_items f xs s1 of
             (batch_ids, s2) \<Rightarrow> (outcome_of r # batch_ids, s2)))"

text \<open>The outer loop over the slice starts: \<^verbatim>\<open>vertex_ids.extend(batch_ids)\<close>.\<close>

fun ingest_batches ::
  "('a \<Rightarrow> 'st session \<Rightarrow> (pyexc + int) \<times> 'st session) \<Rightarrow> 'a list \<Rightarrow> nat \<Rightarrow> nat list
     \<Rightarrow> 'st session \<Rightarrow> int option list \<times> 'st session" where
  "ingest_batches f items batch_size [] s = ([], s)"
| "ingest_batches f items batch_size (i # is) s =
     (case ingest_batch_items f (slice items i batch_size) s of
        (batch_ids, s1) \<Rightarrow>
          (case ingest_batches f items batch_size is s1 of
             (ids, s2) \<Rightarrow> (batch_ids @ ids, s2)))"

definition ingest_batch ::
  "('a \<Rightarrow> 'st session \<Rightarrow> (pyexc + int) \<times> 'st session) \<Rightarrow> 'a list \<Rightarrow> int \<Rightarrow> 'st session
     \<Rightarrow> (pyexc + int option list) \<times> 'st session" where
  "ingest_batch f items batch_size s =
     (case py_range0 (length items) batch_size of
        Inl e \<Rightarrow> (Inl e, s)
      | Inr starts \<Rightarrow>
          (case ingest_batches f items (nat batch_size) starts s of
             (ids, s1) \<Rightarrow> (Inr ids, s1)))"

text \<open>
  \<^verbatim>\<open>ingest_vertices_batch\<close> (lines 118-142) and \<^verbatim>\<open>ingest_edges_batch\<close> (lines 180-204) are
  the same two loops around \<^verbatim>\<open>ingest_vertex\<close> and \<^verbatim>\<open>ingest_edge\<close>.
\<close>

definition ingest_vertices_batch ::
  "'st cursor \<Rightarrow> vertex_data list \<Rightarrow> int \<Rightarrow> 'st session \<Rightarrow> (pyexc + int option list) \<times> 'st session" where
  "ingest_vertices_batch ex vertices batch_size s = ingest_batch (ingest_vertex ex) vertices batch_size s"


text \<open>
  \<^verbatim>\<open>bulk_ingest_from_dict\<close> (lines 236-287): the payload has an optional list under
  \<^verbatim>\<open>"vertices"\<close> and one under \<^verbatim>\<open>"edges"\<close>, whose entries have the keys that the function
  reads; both batch calls use the default batch size 1000, and an exception of the first call
  skips the second.
\<close>

record bulk_data =
  vertices :: "vertex_data list option"
  edges :: "edge_data list option"




text \<open>The statement of \<^verbatim>\<open>ingest_vertex\<close>, against those of the edge phase.\<close>

fun is_vertex_stmt :: "query \<Rightarrow> bool" where
  "is_vertex_stmt (CreateVertex g l p) = True"
| "is_vertex_stmt q = False"

text \<open>
  The vertex loop of the second ingestion script (\<^verbatim>\<open>gem_schema_part_indx.py\<close>, lines 748-760)
  executes \<^verbatim>\<open>MERGE (v:label props_str) RETURN id(v)\<close> for each vertex, with the comment "Use a
  MERGE query to create vertex if it doesn't exist"; an exception is printed. The encoded
  properties are taken as they are.
\<close>

definition merge_vertex :: "'st cursor \<Rightarrow> string \<Rightarrow> string \<Rightarrow> 'st session \<Rightarrow> bool \<times> 'st session" where
  "merge_vertex ex lbl props_str s =
     (case execute ex (MergeVertex (graph_name s) lbl props_str) s of
        (Inl e, s1) \<Rightarrow> (False, s1)
      | (Inr rows, s1) \<Rightarrow> (True, s1))"

text \<open>\<^verbatim>\<open>__init__\<close>: a session starts with an empty mapping.\<close>

definition new_session :: "string \<Rightarrow> 'st \<Rightarrow> 'st session" where
  "new_session g st = \<lparr>graph_name = g, store = st, vertex_id_mapping = Map.empty, issued = []\<rparr>"

section \<open>A reference graph store\<close>

text \<open>
  The graph database is not part of the repository. For statements about what is in the store
  after a run, the cursor is instantiated with a small reference store that follows the
  meaning of the four Cypher statements: \<^verbatim>\<open>CREATE\<close> always adds a record under a fresh
  identifier; \<^verbatim>\<open>MERGE\<close> adds one only when no vertex with the same label and the same
  property literal exists; the edge statement creates an edge when both endpoints exist and
  returns no row otherwise; the lookup returns the vertices of the label whose property
  literal has the member \<^verbatim>\<open>"external_id": "x"\<close>.
\<close>

record gstore =
  g_vertices :: "(int \<times> string \<times> string) list"
  g_edges :: "(int \<times> int \<times> int \<times> string \<times> string) list"
  g_next :: int

definition empty_gstore :: gstore where
  "empty_gstore = \<lparr>g_vertices = [], g_edges = [], g_next = 0\<rparr>"

fun starts_with :: "string \<Rightarrow> string \<Rightarrow> bool" where
  "starts_with [] ys = True"
| "starts_with (x # xs) [] = False"
| "starts_with (x # xs) (y # ys) = (x = y \<and> starts_with xs ys)"

fun contains :: "string \<Rightarrow> string \<Rightarrow> bool" where
  "contains [] xs = starts_with xs []"
| "contains (y # ys) xs = (starts_with xs (y # ys) \<or> contains ys xs)"

definition has_external_id :: "string \<Rightarrow> string \<Rightarrow> bool" where
  "has_external_id p x = contains p (json_string ''external_id'' @ '': '' @ json_string x)"

definition vertex_ids :: "gstore \<Rightarrow> int list" where
  "vertex_ids st = map fst (g_vertices st)"

fun age_exec :: "gstore cursor" where
  "age_exec (CreateVertex g l p) st =
     Inr (st\<lparr>g_vertices := g_vertices st @ [(g_next st, l, p)], g_next := g_next st + 1\<rparr>,
          [g_next st])"
| "age_exec (MergeVertex g l p) st =
     (case filter (\<lambda>v. snd v = (l, p)) (g_vertices st) of
        [] \<Rightarrow> Inr (st\<lparr>g_vertices := g_vertices st @ [(g_next st, l, p)], g_next := g_next st + 1\<rparr>,
                   [g_next st])
      | m # ms \<Rightarrow> Inr (st, map fst (m # ms)))"
| "age_exec (CreateEdge g a b l p) st =
     (if a \<in> set (vertex_ids st) \<and> b \<in> set (vertex_ids st)
      then Inr (st\<lparr>g_edges := g_edges st @ [(g_next st, a, b, l, p)], g_next := g_next st + 1\<rparr>,
                [g_next st])
      else Inr (st, []))"
| "age_exec (MatchExternalId g l x) st =
     Inr (st, map fst (filter (\<lambda>v. fst (snd v) = l \<and> has_external_id (snd (snd v)) x)
                         (g_vertices st)))"

definition vertex_count :: "gstore \<Rightarrow> string \<Rightarrow> nat" where
  "vertex_count st l = length (filter (\<lambda>v. fst (snd v) = l) (g_vertices st))"


section \<open>Partition reorganisation (\<^verbatim>\<open>partitioned_schema.py\<close>,
  \<^verbatim>\<open>date_and_range_partitioned_age_schema.py\<close>)\<close>

text \<open>A table is named by its schema (the graph name) and its name in the schema.\<close>

type_synonym tref = "string \<times> string"

datatype bound = Bound int | MaxValue

text \<open>
  The SQL statements of the reorganisation and of the maintenance functions:
  \<^item> \<open>CreateTableAs temp t\<close>: \<^verbatim>\<open>CREATE TABLE temp AS SELECT * FROM t\<close>;
  \<^item> \<open>DropTable t\<close>: \<^verbatim>\<open>DROP TABLE t\<close>, and \<open>DropTableIfExists t\<close>: \<^verbatim>\<open>DROP TABLE IF EXISTS t\<close>;
  \<^item> \<open>CreatePartitionedTable t\<close>: \<^verbatim>\<open>CREATE TABLE t (...) PARTITION BY RANGE (id)\<close>;
  \<^item> \<open>CreatePartition p t lo hi\<close>: \<^verbatim>\<open>CREATE TABLE p PARTITION OF t FOR VALUES FROM (lo) TO (hi)\<close>;
  \<^item> \<open>InsertSelect t temp\<close>: \<^verbatim>\<open>INSERT INTO t SELECT * FROM temp\<close>;
  \<^item> \<open>RenameTable temp n\<close>: \<^verbatim>\<open>ALTER TABLE temp RENAME TO n\<close>;
  \<^item> \<open>SelectPartitions g t\<close>: the listing of \<^verbatim>\<open>cleanup_old_date_partitions\<close>,
    \<^verbatim>\<open>SELECT schemaname, tablename FROM pg_tables WHERE schemaname = 'g' AND tablename LIKE
    't_y%' AND tablename NOT LIKE '%_default' ORDER BY tablename\<close>.
\<close>

datatype sql =
    CreateTableAs tref tref
  | DropTable tref
  | DropTableIfExists tref
  | CreatePartitionedTable tref
  | CreatePartition tref tref bound bound
  | InsertSelect tref tref
  | RenameTable tref string
  | SelectPartitions string string

text \<open>
  As for the graph statements, the database is a parameter: a statement raises, and then
  leaves the database as it was, or gives the next database and the rows of its result (schema
  name and table name for the listing).
\<close>

type_synonym 'db sql_cursor = "sql \<Rightarrow> 'db \<Rightarrow> pyexc + ('db \<times> (string \<times> string) list)"

record 'db conn =
  database :: 'db
  executed :: "sql list"

definition sql_execute ::
  "'db sql_cursor \<Rightarrow> sql \<Rightarrow> 'db conn \<Rightarrow> (pyexc + (string \<times> string) list) \<times> 'db conn" where
  "sql_execute ex q c =
     (case ex q (database c) of
        Inl e \<Rightarrow> (Inl e, c\<lparr>executed := executed c @ [q]\<rparr>)
      | Inr (d, rows) \<Rightarrow> (Inr rows, c\<lparr>database := d, executed := executed c @ [q]\<rparr>))"

text \<open>
  The statements of one \<^verbatim>\<open>try\<close> block in order: the first exception leaves the block, with
  the statements after it not executed.
\<close>

fun run_all :: "'db sql_cursor \<Rightarrow> sql list \<Rightarrow> 'db conn \<Rightarrow> pyexc option \<times> 'db conn" where
  "run_all ex [] c = (None, c)"
| "run_all ex (q # qs) c =
     (case sql_execute ex q c of
        (Inl e, c1) \<Rightarrow> (Some e, c1)
      | (Inr rows, c1) \<Rightarrow> run_all ex qs c1)"

text \<open>\<^verbatim>\<open>str.lower()\<close> on code points below 256.\<close>

definition lower_char :: "char \<Rightarrow> char" where
  "lower_char c =
     (let n = (of_char c :: nat)
      in if (65 \<le> n \<and> n \<le> 90) \<or> (192 \<le> n \<and> n \<le> 222 \<and> n \<noteq> 215)
         then char_of (n + 32) else c)"

definition lower :: "string \<Rightarrow> string" where
  "lower s = map lower_char s"

text \<open>
  The handler of the reorganisation: \<^verbatim>\<open>_restore_from_backup\<close>
  (\<^verbatim>\<open>date_and_range_partitioned_age_schema.py\<close>, lines 279-286) and the same two statements
  written in place in \<^verbatim>\<open>partitioned_schema.py\<close>, lines 91-95. Both statements stand in one
  \<^verbatim>\<open>try\<close> block whose \<^verbatim>\<open>except\<close> swallows the exception. The Boolean of the result tells
  whether the block ran to its end: \<^verbatim>\<open>_restore_from_backup\<close> prints one message or the other,
  the handler written in place prints nothing.
\<close>

definition restore_from_backup ::
  "'db sql_cursor \<Rightarrow> tref \<Rightarrow> tref \<Rightarrow> string \<Rightarrow> 'db conn \<Rightarrow> bool \<times> 'db conn" where
  "restore_from_backup ex table_name temp_table lbl c =
     (case run_all ex [DropTableIfExists table_name, RenameTable temp_table (lower lbl)] c of
        (None, c1) \<Rightarrow> (True, c1)
      | (Some restore_error, c1) \<Rightarrow> (False, c1))"

text \<open>
  The body of the \<^verbatim>\<open>try\<close> block of \<^verbatim>\<open>create_truly_partitioned_schema\<close> for one label
  (\<^verbatim>\<open>partitioned_schema.py\<close>, lines 46-86, and the blocks that partition by identifier in
  \<^verbatim>\<open>date_and_range_partitioned_age_schema.py\<close>, lines 136-168). The blocks that partition by
  date have the same shape: the copy into the shadow table is their first statement, the drop of
  the original table their second, and their handler is the same.
\<close>

definition partition_statements :: "tref \<Rightarrow> tref \<Rightarrow> sql list" where
  "partition_statements table_name temp_table =
     [CreateTableAs temp_table table_name,
      DropTable table_name,
      CreatePartitionedTable table_name,
      CreatePartition (fst table_name, snd table_name @ ''_p1'') table_name (Bound 0) (Bound 1000000),
      CreatePartition (fst table_name, snd table_name @ ''_p2'') table_name (Bound 1000000) (Bound 2000000),
      CreatePartition (fst table_name, snd table_name @ ''_p3'') table_name (Bound 2000000) MaxValue,
      InsertSelect table_name temp_table,
      DropTable temp_table]"

datatype outcome = Partitioned | Restored | RestoreFailed

definition partition_label :: "'db sql_cursor \<Rightarrow> string \<Rightarrow> string \<Rightarrow> 'db conn \<Rightarrow> outcome \<times> 'db conn" where
  "partition_label ex graph lbl c =
     (let table_name = (graph, lower lbl);
          temp_table = (graph, lower lbl @ ''_temp'')
      in case run_all ex (partition_statements table_name temp_table) c of
           (None, c1) \<Rightarrow> (Partitioned, c1)
         | (Some e, c1) \<Rightarrow>
             (case restore_from_backup ex table_name temp_table lbl c1 of
                (True, c2) \<Rightarrow> (Restored, c2)
              | (False, c2) \<Rightarrow> (RestoreFailed, c2)))"

text \<open>The loop over \<^verbatim>\<open>LARGE_VERTEX_LABELS\<close>; an error of one label does not stop the loop.\<close>

fun partition_labels :: "'db sql_cursor \<Rightarrow> string \<Rightarrow> string list \<Rightarrow> 'db conn \<Rightarrow> outcome list \<times> 'db conn" where
  "partition_labels ex graph [] c = ([], c)"
| "partition_labels ex graph (lbl # labels) c =
     (case partition_label ex graph lbl c of
        (r, c1) \<Rightarrow>
          (case partition_labels ex graph labels c1 of
             (rs, c2) \<Rightarrow> (r # rs, c2)))"

definition LARGE_VERTEX_LABELS :: "string list" where
  "LARGE_VERTEX_LABELS = [''Person'', ''Product'']"

subsection \<open>\<^verbatim>\<open>cleanup_old_date_partitions\<close>\<close>

text \<open>\<^verbatim>\<open>partition_name.split('_y')\<close>: the pieces between the occurrences of \<^verbatim>\<open>_y\<close>.\<close>

fun split_y :: "string \<Rightarrow> string \<Rightarrow> string list" where
  "split_y cur [] = [rev cur]"
| "split_y cur [c] = [rev (c # cur)]"
| "split_y cur (c # d # cs) =
     (if c = CHR ''_'' \<and> d = CHR ''y'' then rev cur # split_y [] cs
      else split_y (c # cur) (d # cs))"

text \<open>
  The loop over the listed partitions (lines 396-411). \<^verbatim>\<open>int()\<close> is a parameter \<open>int_of\<close>,
  with \<open>None\<close> for \<^verbatim>\<open>ValueError\<close>. The loop prints a warning for every partition whose year
  is below the cutoff, and a message for every name whose year does not parse; the
  \<^verbatim>\<open>DROP TABLE\<close> of the source is commented out, so the loop executes no statement.
\<close>

fun cleanup_loop ::
  "(string \<Rightarrow> int option) \<Rightarrow> int \<Rightarrow> (string \<times> string) list \<Rightarrow> (string \<times> int) list \<times> string list" where
  "cleanup_loop int_of cutoff_year [] = ([], [])"
| "cleanup_loop int_of cutoff_year ((schema, partition_name) # partitions) =
     (case cleanup_loop int_of cutoff_year partitions of
        (warned, unparsed) \<Rightarrow>
          (case int_of (last (split_y [] partition_name)) of
             None \<Rightarrow> (warned, partition_name # unparsed)
           | Some year \<Rightarrow>
               if year < cutoff_year then ((partition_name, year) # warned, unparsed)
               else (warned, unparsed)))"

record 'db cleanup_result =
  error :: "pyexc option"
  warned :: "(string \<times> int) list"
  unparsed :: "string list"
  connection :: "'db conn"

text \<open>
  \<^verbatim>\<open>cleanup_old_date_partitions\<close> (lines 363-417), with \<^verbatim>\<open>datetime.now().year\<close> as
  the parameter \<open>current_year\<close>. An exception of the listing is printed by the outer handler.
\<close>

definition cleanup_old_date_partitions ::
  "'db sql_cursor \<Rightarrow> (string \<Rightarrow> int option) \<Rightarrow> int \<Rightarrow> string \<Rightarrow> string \<Rightarrow> int \<Rightarrow> 'db conn
     \<Rightarrow> 'db cleanup_result" where
  "cleanup_old_date_partitions ex int_of current_year graph table_name keep_years c =
     (let cutoff_year = current_year - keep_years
      in case sql_execute ex (SelectPartitions graph table_name) c of
           (Inl e, c1) \<Rightarrow> \<lparr>error = Some e, warned = [], unparsed = [], connection = c1\<rparr>
         | (Inr partitions, c1) \<Rightarrow>
             (case cleanup_loop int_of cutoff_year partitions of
                (ws, us) \<Rightarrow> \<lparr>error = None, warned = ws, unparsed = us, connection = c1\<rparr>))"

section \<open>A reference table store\<close>

text \<open>
  The relational database is not part of the repository either. The reference database keeps,
  for every table, the parent it is a partition of (if any) and its rows, each row by its
  identifier. A statement raises where the database would: creating a table whose name is
  taken, reading, dropping or renaming a table that does not exist, renaming to a name that is
  taken. Dropping a table drops its partitions with it. Rows inserted into a partitioned table
  are kept with the parent (the routing to the partitions plays no part in the properties below),
  and the listing returns the tables in the order in which they were created.
\<close>

type_synonym pgdb = "(tref \<times> tref option \<times> int list) list"

text \<open>The \<^verbatim>\<open>LIKE\<close> operator: \<^verbatim>\<open>%\<close> stands for any text and \<^verbatim>\<open>_\<close> for any one character.\<close>

fun like :: "string \<Rightarrow> string \<Rightarrow> bool" where
  "like [] [] = True"
| "like [] (c # cs) = False"
| "like (p # ps) [] = (p = CHR ''%'' \<and> like ps [])"
| "like (p # ps) (c # cs) =
     (if p = CHR ''%'' then like ps (c # cs) \<or> like (p # ps) cs
      else (p = CHR ''_'' \<or> p = c) \<and> like ps cs)"

definition drop_table :: "tref \<Rightarrow> pgdb \<Rightarrow> pgdb" where
  "drop_table t d = filter (\<lambda>r. fst r \<noteq> t \<and> fst (snd r) \<noteq> Some t) d"

fun pg_exec :: "pgdb sql_cursor" where
  "pg_exec (CreateTableAs temp t) d =
     (case map_of d t of
        None \<Rightarrow> Inl DatabaseError
      | Some pr \<Rightarrow>
          (case map_of d temp of
             Some u \<Rightarrow> Inl DatabaseError
           | None \<Rightarrow> Inr (d @ [(temp, None, snd pr)], [])))"
| "pg_exec (DropTable t) d =
     (case map_of d t of
        None \<Rightarrow> Inl DatabaseError
      | Some pr \<Rightarrow> Inr (drop_table t d, []))"
| "pg_exec (DropTableIfExists t) d = Inr (drop_table t d, [])"
| "pg_exec (CreatePartitionedTable t) d =
     (case map_of d t of
        Some pr \<Rightarrow> Inl DatabaseError
      | None \<Rightarrow> Inr (d @ [(t, None, [])], []))"
| "pg_exec (CreatePartition p t lo hi) d =
     (case map_of d t of
        None \<Rightarrow> Inl DatabaseError
      | Some pr \<Rightarrow>
          (case map_of d p of
             Some u \<Rightarrow> Inl DatabaseError
           | None \<Rightarrow> Inr (d @ [(p, Some t, [])], [])))"
| "pg_exec (InsertSelect t temp) d =
     (case map_of d t of
        None \<Rightarrow> Inl DatabaseError
      | Some pr \<Rightarrow>
          (case map_of d temp of
             None \<Rightarrow> Inl DatabaseError
           | Some u \<Rightarrow>
               Inr (map (\<lambda>r. if fst r = t then (t, fst pr, snd pr @ snd u) else r) d, [])))"
| "pg_exec (RenameTable temp n) d =
     (case map_of d temp of
        None \<Rightarrow> Inl DatabaseError
      | Some pr \<Rightarrow>
          (case map_of d (fst temp, n) of
             Some u \<Rightarrow> Inl DatabaseError
           | None \<Rightarrow> Inr (map (\<lambda>r. if fst r = temp then ((fst temp, n), snd r) else r) d, [])))"
| "pg_exec (SelectPartitions g t) d =
     Inr (d, filter (\<lambda>n. fst n = g \<and> like (t @ ''_y%'') (snd n) \<and> \<not> like ''%_default'' (snd n))
               (map fst d))"

text \<open>A cursor that raises on the listed statements and behaves as the given one otherwise.\<close>

definition sql_failing_on :: "sql list \<Rightarrow> 'db sql_cursor \<Rightarrow> 'db sql_cursor" where
  "sql_failing_on bad ex q d = (if q \<in> set bad then Inl DatabaseError else ex q d)"

definition new_conn :: "'db \<Rightarrow> 'db conn" where
  "new_conn d = \<lparr>database = d, executed = []\<rparr>"

section \<open>Sample inputs\<close>

definition alice :: vertex_data where
  "alice = \<lparr>label = ''Person'',
            properties = [(''name'', PStr ''Alice''), (''external_id'', PStr ''p1'')],
            external_id = Some ''p1''\<rparr>"

definition acme :: vertex_data where
  "acme = \<lparr>label = ''Company'', properties = [(''name'', PStr ''Acme'')], external_id = Some ''p1''\<rparr>"

definition broken :: vertex_data where
  "broken = \<lparr>label = ''Person'', properties = [(''born'', PObj ''2020-01-01'')], external_id = None\<rparr>"




definition session0 :: "gstore session" where
  "session0 = new_session ''kg_graph'' empty_gstore"

text \<open>The store after the same vertex was ingested twice.\<close>

definition two_alices :: gstore where
  "two_alices = store (snd (ingest_vertex age_exec alice (snd (ingest_vertex age_exec alice session0))))"





definition person_table :: tref where
  "person_table = (''my_graph'', ''person'')"

definition person_temp :: tref where
  "person_temp = (''my_graph'', ''person_temp'')"

definition person_db :: pgdb where
  "person_db = [(person_table, None, [1, 2, 3])]"

text \<open>The same database with a table \<^verbatim>\<open>person_temp\<close> left over from an earlier run.\<close>

definition stale_db :: pgdb where
  "stale_db = [(person_table, None, [1, 2, 3]), (person_temp, None, [9])]"

text \<open>A table with partitions for 2020 and 2025, one with an unreadable year, and a default.\<close>

definition yearly_db :: pgdb where
  "yearly_db =
     [(person_table, None, []),
      ((''my_graph'', ''person_y2020''), Some person_table, [1]),
      ((''my_graph'', ''person_y2025''), Some person_table, [2]),
      ((''my_graph'', ''person_yold''), Some person_table, [3]),
      ((''my_graph'', ''person_default''), Some person_table, [4])]"

text \<open>A reader of four-digit years, for the sample runs.\<close>

definition year_of :: "string \<Rightarrow> int option" where
  "year_of t = (if t = ''2020'' then Some 2020 else if t = ''2025'' then Some 2025 else None)"

section \<open>Properties of the batch loops\<close>

text \<open>
  The two nested loops of a batch call process the items one after the other, whatever the
  batch size: the slices \<^verbatim>\<open>items[i:i + batch_size]\<close> for \<open>i = 0, batch_size, ...\<close> put
  together are the input list.
\<close>

lemma ingest_batch_items_append:
  "ingest_batch_items f (xs @ ys) s =
     (case ingest_batch_items f xs s of
        (r1, s1) \<Rightarrow> (case ingest_batch_items f ys s1 of (r2, s2) \<Rightarrow> (r1 @ r2, s2)))"
  by (induction xs arbitrary: s) (auto split: prod.splits)

lemma ingest_batches_append:
  "ingest_batches f items bs (xs @ ys) s =
     (case ingest_batches f items bs xs s of
        (r1, s1) \<Rightarrow> (case ingest_batches f items bs ys s1 of (r2, s2) \<Rightarrow> (r1 @ r2, s2)))"
  by (induction xs arbitrary: s) (auto split: prod.splits)

lemma ingest_batches_prefix:
  "ingest_batches f items bs (map (\<lambda>k. k * bs) [0 ..< m]) s =
   ingest_batch_items f (take (m * bs) items) s"
proof (induction m arbitrary: s)
  case 0
  then show ?case by simp
next
  case (Suc m)
  have "take (m * bs + bs) items = take (m * bs) items @ slice items (m * bs) bs"
    by (simp add: slice_def take_add)
  then have tk: "take (bs + m * bs) items = take (m * bs) items @ slice items (m * bs) bs"
    by (simp add: add.commute)
  show ?case
    using Suc
    by (simp add: ingest_batches_append tk ingest_batch_items_append split: prod.splits)
qed

lemma chunks_cover: 
  fixes n bs :: nat
  assumes "0 < bs"
  shows "n \<le> ((n + bs - 1) div bs) * bs"
proof -
  define q where "q = (n + bs - 1) div bs"
  define r where "r = (n + bs - 1) mod bs"
  have "r < bs" using assms by (simp add: r_def)
  moreover have "q * bs + r = n + bs - 1" by (simp add: q_def r_def)
  ultimately have "n \<le> q * bs" using assms by linarith
  then show ?thesis by (simp add: q_def)
qed

lemma ingest_batch_positive:
  assumes "0 < batch_size"
  shows "ingest_batch f items batch_size s =
           (Inr (fst (ingest_batch_items f items s)), snd (ingest_batch_items f items s))"
proof -
  let ?bs = "nat batch_size"
  let ?m = "(length items + ?bs - 1) div ?bs"
  have pos: "0 < ?bs" using assms by simp
  have "take (?m * ?bs) items = items" using chunks_cover [OF pos, of "length items"] by simp
  then show ?thesis
    using assms ingest_batches_prefix [of f items ?bs ?m s]
    by (simp add: ingest_batch_def py_range0_def split: prod.splits)
qed

lemma length_ingest_batch_items: "length (fst (ingest_batch_items f xs s)) = length xs"
  by (induction xs arbitrary: s) (simp_all add: split_beta)

lemma nth_ingest_batch_items:
  "i < length xs \<Longrightarrow>
   fst (ingest_batch_items f xs s) ! i =
     outcome_of (fst (f (xs ! i) (snd (ingest_batch_items f (take i xs) s))))"
proof (induction xs arbitrary: s i)
  case Nil
  then show ?case by simp
next
  case (Cons x xs)
  show ?case
  proof (cases i)
    case 0
    then show ?thesis by (simp add: split_beta)
  next
    case (Suc j)
    then have "j < length xs" using Cons.prems by simp
    from Cons.IH [OF this] show ?thesis using Suc
      by (simp add: split_beta)
  qed
qed

text \<open>
  With a positive batch size a batch call returns a list, one entry per item and in the order of
  the input: entry \<open>i\<close> is the outcome of ingesting item \<open>i\<close> in the state that the items
  before it have left, whether those succeeded or failed.
\<close>

lemma ingest_batch_aligned:
  assumes "0 < batch_size"
  shows "\<exists>ids s'. ingest_batch f items batch_size s = (Inr ids, s') \<and>
           length ids = length items \<and>
           (\<forall>i < length items.
              ids ! i = outcome_of (fst (f (items ! i)
                          (snd (ingest_batch f (take i items) batch_size s)))))"
  using assms
  by (simp add: ingest_batch_positive length_ingest_batch_items nth_ingest_batch_items)

text \<open>
  Claim C4, as amended: for every list of vertices and every batch size of at least 1,
  \<^verbatim>\<open>ingest_vertices_batch\<close> returns a list of the same length as its input and in the same order;
  position \<open>i\<close> holds the identifier of vertex \<open>i\<close> when its ingestion succeeded and
  \<^verbatim>\<open>None\<close> when it raised, and every vertex is ingested, in the state left by the vertices before
  it, whatever happened to them.
\<close>

theorem ingest_vertices_batch_aligned:
  assumes "0 < batch_size"
  shows "\<exists>ids s'. ingest_vertices_batch ex vs batch_size s = (Inr ids, s') \<and>
           length ids = length vs \<and>
           (\<forall>i < length vs.
              ids ! i = outcome_of (fst (ingest_vertex ex (vs ! i)
                          (snd (ingest_vertices_batch ex (take i vs) batch_size s)))))"
  using ingest_batch_aligned [OF assms, of "ingest_vertex ex" vs s]
  by (simp add: ingest_vertices_batch_def)

text \<open>Three vertices in batches of two; the second one has a property that cannot be encoded.\<close>

lemma batch_example:
  "fst (ingest_vertices_batch age_exec [alice, broken, acme] 2 session0) = Inr [Some 0, None, Some 1]"
  by code_simp

text \<open>
  Claim C4 as stated, for every batch size, fails: with the batch size 0 the call raises
  \<^verbatim>\<open>ValueError\<close> (\<^verbatim>\<open>range()\<close> refuses a zero step), and with a negative batch size it returns
  the empty list for a list of one vertex.
\<close>

theorem ingest_vertices_batch_nonpositive_cex:
  "fst (ingest_vertices_batch age_exec [alice] 0 session0) = Inl ValueError \<and>
   fst (ingest_vertices_batch age_exec [alice] (- 1) session0) = Inr []"
  by (simp add: ingest_vertices_batch_def ingest_batch_def py_range0_def)

text \<open>Claim C4, as amended, at batch size 2.\<close>

theorem ingest_vertices_batch_aligned_witness:
  "(0::int) < 2 \<and>
   (\<exists>ids s'. ingest_vertices_batch age_exec [alice, broken, acme] 2 session0 = (Inr ids, s') \<and>
      length ids = length [alice, broken, acme] \<and>
      (\<forall>i < length [alice, broken, acme].
         ids ! i = outcome_of (fst (ingest_vertex age_exec ([alice, broken, acme] ! i)
                     (snd (ingest_vertices_batch age_exec (take i [alice, broken, acme]) 2 session0)))))) \<and>
   fst (ingest_vertices_batch age_exec [alice, broken, acme] 2 session0) = Inr [Some 0, None, Some 1]"
proof -
  have h: "(0::int) < 2" by simp
  show ?thesis
    using h ingest_vertices_batch_aligned [OF h, of age_exec "[alice, broken, acme]" session0] batch_example
    by blast
qed

section \<open>Properties of the identity resolver\<close>

text \<open>
  Claim C5, as amended: when the external identifier is not in the mapping, a label is given and
  the fallback lookup returns one row or more, \<^verbatim>\<open>_resolve_vertex_id\<close> returns the identifier of
  the first row and stores it in the mapping under the external identifier; the other rows are
  not looked at.
\<close>

theorem resolve_takes_first_match:
  assumes "vertex_id_mapping s x = None"
    and "vertex_label = Some l" and "l \<noteq> []"
    and "ex (MatchExternalId (graph_name s) l x) (store s) = Inr (st', r # rows)"
  shows "resolve_vertex_id ex (ExternalId x) vertex_label s =
           (Inr r, s\<lparr>store := st',
                     issued := issued s @ [MatchExternalId (graph_name s) l x],
                     vertex_id_mapping := (vertex_id_mapping s)(x \<mapsto> r)\<rparr>)"
  using assms
  by (simp add: resolve_vertex_id_def truthy_def execute_def fetchone_def)

text \<open>
  Claim C5 as stated fails: in a store with two \<^verbatim>\<open>Person\<close> vertices whose \<^verbatim>\<open>external_id\<close>
  property is \<^verbatim>\<open>p1\<close>, the lookup returns both, and the resolver returns the first of them.
\<close>

theorem resolve_ambiguous_cex:
  "age_exec (MatchExternalId ''kg_graph'' ''Person'' ''p1'') two_alices = Inr (two_alices, [0, 1]) \<and>
   fst (resolve_vertex_id age_exec (ExternalId ''p1'') (Some ''Person'') (new_session ''kg_graph'' two_alices))
     = Inr 0"
  by code_simp

text \<open>Claim C5, as amended, in that store.\<close>

theorem resolve_takes_first_match_witness:
  "vertex_id_mapping (new_session ''kg_graph'' two_alices) ''p1'' = None \<and>
   age_exec (MatchExternalId (graph_name (new_session ''kg_graph'' two_alices)) ''Person'' ''p1'')
     (store (new_session ''kg_graph'' two_alices)) = Inr (two_alices, [0, 1]) \<and>
   fst (resolve_vertex_id age_exec (ExternalId ''p1'') (Some ''Person'') (new_session ''kg_graph'' two_alices))
     = Inr 0 \<and>
   vertex_id_mapping
     (snd (resolve_vertex_id age_exec (ExternalId ''p1'') (Some ''Person'') (new_session ''kg_graph'' two_alices)))
     ''p1'' = Some 0"
proof -
  let ?s = "new_session ''kg_graph'' two_alices"
  have h1: "vertex_id_mapping ?s ''p1'' = None" by (simp add: new_session_def)
  have h2: "Some ''Person'' = Some ''Person''" by simp
  have h3: "''Person'' \<noteq> []" by simp
  have h4: "age_exec (MatchExternalId (graph_name ?s) ''Person'' ''p1'') (store ?s) = Inr (two_alices, 0 # [1])"
    by code_simp
  have eq: "resolve_vertex_id age_exec (ExternalId ''p1'') (Some ''Person'') ?s =
              (Inr 0, ?s\<lparr>store := two_alices,
                        issued := issued ?s @ [MatchExternalId (graph_name ?s) ''Person'' ''p1''],
                        vertex_id_mapping := (vertex_id_mapping ?s)(''p1'' \<mapsto> 0)\<rparr>)"
    by (rule resolve_takes_first_match [where s = ?s and x = "''p1''" and vertex_label = "Some ''Person''"
          and l = "''Person''" and ex = age_exec and st' = two_alices and r = 0 and rows = "[1]",
          OF h1 h2 h3 h4])
  have c3: "fst (resolve_vertex_id age_exec (ExternalId ''p1'') (Some ''Person'') ?s) = Inr 0"
    by (simp only: eq fst_conv)
  have c4: "vertex_id_mapping (snd (resolve_vertex_id age_exec (ExternalId ''p1'') (Some ''Person'') ?s))
              ''p1'' = Some 0"
    by (simp add: eq)
  show ?thesis
    using h1 h4 c3 c4 by blast
qed

text \<open>
  Claim C10: the mapping is keyed by the external identifier alone. After two vertices, of any
  labels, were ingested with the same external identifier, the mapping holds the identifier of
  the second one, and resolving that external identifier returns it for every label hint,
  without executing a statement (the session is unchanged).
\<close>

theorem mapping_keyed_by_external_id:
  assumes "ingest_vertex ex v1 s = (Inr i1, s1)" and "ingest_vertex ex v2 s1 = (Inr i2, s2)"
    and "external_id v1 = Some x" and "external_id v2 = Some x" and "x \<noteq> []"
  shows "vertex_id_mapping s1 x = Some i1 \<and> vertex_id_mapping s2 x = Some i2 \<and>
         resolve_vertex_id ex (ExternalId x) vertex_label s2 = (Inr i2, s2)"
  using assms
  by (auto simp: ingest_vertex_def resolve_vertex_id_def truthy_def execute_def
      split: sum.splits prod.splits option.splits if_splits)

text \<open>Claim C10 for a \<^verbatim>\<open>Person\<close> and a \<^verbatim>\<open>Company\<close> that share the external identifier \<^verbatim>\<open>p1\<close>.\<close>

theorem mapping_keyed_by_external_id_witness:
  "fst (ingest_vertex age_exec alice session0) = Inr 0 \<and>
   fst (ingest_vertex age_exec acme (snd (ingest_vertex age_exec alice session0))) = Inr 1 \<and>
   external_id alice = Some ''p1'' \<and> external_id acme = Some ''p1'' \<and>
   label alice = ''Person'' \<and> label acme = ''Company'' \<and>
   fst (resolve_vertex_id age_exec (ExternalId ''p1'') (Some ''Person'')
          (snd (ingest_vertex age_exec acme (snd (ingest_vertex age_exec alice session0))))) = Inr 1 \<and>
   issued (snd (resolve_vertex_id age_exec (ExternalId ''p1'') (Some ''Person'')
          (snd (ingest_vertex age_exec acme (snd (ingest_vertex age_exec alice session0))))))
     = issued (snd (ingest_vertex age_exec acme (snd (ingest_vertex age_exec alice session0))))"
proof -
  let ?s1 = "snd (ingest_vertex age_exec alice session0)"
  let ?s2 = "snd (ingest_vertex age_exec acme ?s1)"
  have r1: "fst (ingest_vertex age_exec alice session0) = Inr 0" by code_simp
  have r2: "fst (ingest_vertex age_exec acme ?s1) = Inr 1" by code_simp
  have h1: "ingest_vertex age_exec alice session0 = (Inr 0, ?s1)"
    using r1 by (metis prod.collapse)
  have h2: "ingest_vertex age_exec acme ?s1 = (Inr 1, ?s2)"
    using r2 by (metis prod.collapse)
  have h3: "external_id alice = Some ''p1''" by (simp add: alice_def)
  have h4: "external_id acme = Some ''p1''" by (simp add: acme_def)
  have h5: "''p1'' \<noteq> []" by simp
  have l1: "label alice = ''Person''" by (simp add: alice_def)
  have l2: "label acme = ''Company''" by (simp add: acme_def)
  show ?thesis
    using r1 r2 h3 h4 l1 l2 mapping_keyed_by_external_id [OF h1 h2 h3 h4 h5, of "Some ''Person''"]
    by simp
qed


section \<open>Properties of the bulk ingestion\<close>










section \<open>Properties of the edge ingestion\<close>










section \<open>Properties of the vertex ingestion\<close>

text \<open>
  Claim C1 says that ingesting the same vertex twice leaves the number of vertices of its label
  unchanged. \<^verbatim>\<open>ingest_vertex\<close> executes a \<^verbatim>\<open>CREATE\<close> statement on every call: on the reference
  store, the sample vertex ingested twice into the empty graph gives two \<^verbatim>\<open>Person\<close> vertices,
  by two vertex statements.
\<close>

theorem ingest_vertex_twice_duplicates:
  "vertex_count (store session0) ''Person'' = 0 \<and>
   vertex_count (store (snd (ingest_vertex age_exec alice session0))) ''Person'' = 1 \<and>
   vertex_count (store (snd (ingest_vertex age_exec alice (snd (ingest_vertex age_exec alice session0)))))
     ''Person'' = 2 \<and>
   map is_vertex_stmt
     (issued (snd (ingest_vertex age_exec alice (snd (ingest_vertex age_exec alice session0)))))
     = [True, True]"
  by code_simp

text \<open>
  The vertex loop of the second ingestion script executes \<^verbatim>\<open>MERGE\<close>; run twice with the same
  label and the same encoded properties, its second run adds no vertex.
\<close>

lemma merge_vertex_idempotent:
  "vertex_count (store (snd (merge_vertex age_exec l p (snd (merge_vertex age_exec l p s))))) l =
   vertex_count (store (snd (merge_vertex age_exec l p s))) l"
  by (simp add: merge_vertex_def execute_def vertex_count_def split: list.splits)

section \<open>Properties of the property encoders\<close>

text \<open>
  Claim C2 says that no property value can close its quoted literal early. In
  \<^verbatim>\<open>_format_props_for_cypher_map\<close> a backslash is put before each single quote, but a backslash
  of the value is left as it is: for the value of the two characters backslash and quote, the
  literal holds backslash, backslash, quote between its quotes, the scanner takes the two
  backslashes together, and the quote of the value closes the literal, with the closing quote
  of the encoder left over. The encoder of \<^verbatim>\<open>age_ingestion3.py\<close> does not escape at all, so any
  quote of a value closes its literal.
\<close>

theorem cypher_quote_breaks_out:
  "format_props_for_cypher_map [(''k'', CStr [backslash, squote])]
     = ''k: '' @ [squote, backslash, backslash, squote, squote] \<and>
   scan_quoted squote [backslash, backslash, squote, squote] = Some ([backslash, backslash], [squote]) \<and>
   \<not> embeds_value squote (cypher_quote [backslash, squote]) \<and>
   \<not> embeds_value squote (squote # ''O'' @ [squote] @ ''Hara'' @ [squote]) \<and>
   quote_props [(''name'', ''O'' @ [squote] @ ''Hara'')]
     = ''name: '' @ squote # ''O'' @ [squote] @ ''Hara'' @ [squote]"
  by code_simp

text \<open>
  Where the encoders do embed their values. The string literals of \<^verbatim>\<open>json.dumps\<close> are closed
  by their last character for every value: quotes and backslashes are both escaped.
\<close>

lemma of_char_bound: "(of_char c :: nat) < 256"
proof -
  have "(of_char c :: nat) mod 256 < 256" by simp
  then show ?thesis by (simp only: of_char_mod_256)
qed

lemma scan_quoted_close: "scan_quoted q (q # rest) = Some ([], rest)"
  by (cases rest) simp_all

lemma scan_quoted_plain:
  "c \<noteq> q \<Longrightarrow> c \<noteq> backslash \<Longrightarrow> rest \<noteq> [] \<Longrightarrow>
   scan_quoted q (c # rest) = map_option (\<lambda>br. (c # fst br, snd br)) (scan_quoted q rest)"
  by (cases rest) simp_all

lemma scan_quoted_escape:
  "backslash \<noteq> q \<Longrightarrow>
   scan_quoted q (backslash # d # rest) =
     map_option (\<lambda>br. (backslash # d # fst br, snd br)) (scan_quoted q rest)"
  by simp

lemma hex_char_plain_all:
  "\<forall>d \<in> set [0 ..< 16]. hex_char d \<noteq> dquote \<and> hex_char d \<noteq> backslash"
  by code_simp

lemma hex_char_plain: "d < 16 \<Longrightarrow> hex_char d \<noteq> dquote \<and> hex_char d \<noteq> backslash"
  using hex_char_plain_all by simp

lemma json_escape_scans:
  assumes "scan_quoted dquote tail = Some (body, rest)" and "tail \<noteq> []"
  shows "scan_quoted dquote (json_escape_char c @ tail) = Some (json_escape_char c @ body, rest)"
proof -
  have bq: "backslash \<noteq> dquote" by (simp add: backslash_def dquote_def)
  have "(of_char c :: nat) div 16 < 16"
    using of_char_bound [of c] by (simp add: div_less_iff_less_mult)
  then have h1: "hex_char (of_char c div 16) \<noteq> dquote \<and> hex_char (of_char c div 16) \<noteq> backslash"
    by (rule hex_char_plain)
  have h2: "hex_char (of_char c mod 16) \<noteq> dquote \<and> hex_char (of_char c mod 16) \<noteq> backslash"
    by (intro hex_char_plain) simp
  have z: "CHR ''0'' \<noteq> dquote" "CHR ''0'' \<noteq> backslash" by (simp_all add: backslash_def dquote_def)
  show ?thesis
    using assms bq h1 h2 z
    by (simp add: json_escape_char_def scan_quoted_plain scan_quoted_escape del: scan_quoted.simps)
qed

lemma json_body_scans:
  "scan_quoted dquote (concat (map json_escape_char s) @ dquote # rest)
     = Some (concat (map json_escape_char s), rest)"
proof (induction s)
  case Nil
  then show ?case by (simp add: scan_quoted_close del: scan_quoted.simps)
next
  case (Cons c s)
  show ?case
    using json_escape_scans [OF Cons.IH, of c] by simp
qed

lemma json_string_embeds: "embeds_value dquote (json_string s)"
  using json_body_scans [of s "[]"]
  by (simp add: embeds_value_def json_string_def butlast_append)

text \<open>
  The literals of \<^verbatim>\<open>_format_props_for_cypher_map\<close> are closed by their last character for the
  values that hold no backslash.
\<close>

lemma escape_body_scans:
  "backslash \<notin> set v \<Longrightarrow>
   scan_quoted squote (escape_single_quotes v @ squote # rest) = Some (escape_single_quotes v, rest)"
proof (induction v)
  case Nil
  then show ?case by (simp add: escape_single_quotes_def scan_quoted_close del: scan_quoted.simps)
next
  case (Cons c v)
  have bq: "backslash \<noteq> squote" by (simp add: backslash_def squote_def)
  have ih: "scan_quoted squote (escape_single_quotes v @ squote # rest) = Some (escape_single_quotes v, rest)"
    using Cons by simp
  have cb: "c \<noteq> backslash" using Cons.prems by auto
  show ?case
    using ih bq cb
    by (simp add: escape_single_quotes_def scan_quoted_plain scan_quoted_escape del: scan_quoted.simps)
qed

lemma cypher_quote_embeds: "backslash \<notin> set v \<Longrightarrow> embeds_value squote (cypher_quote v)"
  using escape_body_scans [of v "[]"]
  by (simp add: embeds_value_def cypher_quote_def butlast_append)

text \<open>
  The statements of \<^verbatim>\<open>ingestion.py\<close> put the encoded properties between the delimiters
  \<^verbatim>\<open>$$\<close> of the \<^verbatim>\<open>cypher()\<close> call, and \<^verbatim>\<open>json.dumps\<close> does not change a dollar sign.
\<close>

lemma dollar_example:
  "(case convert_properties_to_agtype [(''k'', PStr ''$$'')] of Inl e \<Rightarrow> False | Inr t \<Rightarrow> contains t ''$$'')"
  by code_simp

section \<open>Properties of the partition reorganisation\<close>

text \<open>
  Claim C3 says that a failed copy into the shadow table leaves the original table unchanged.
  The copy is the first statement of the \<^verbatim>\<open>try\<close> block, and the handler of the block, written to
  restore from the backup, starts with \<^verbatim>\<open>DROP TABLE IF EXISTS\<close> of the original table. On the
  reference database, when the copy raises, the original table with its rows 1, 2, 3 is dropped
  and nothing is restored; when the copy raises because a table \<^verbatim>\<open>person_temp\<close> is left from
  an earlier run, the original table is dropped and replaced by that stale table.
\<close>

theorem failed_copy_drops_original:
  "partition_label (sql_failing_on [CreateTableAs person_temp person_table] pg_exec)
     ''my_graph'' ''Person'' (new_conn person_db)
     = (RestoreFailed,
        \<lparr>database = [],
         executed = [CreateTableAs person_temp person_table,
                     DropTableIfExists person_table,
                     RenameTable person_temp ''person'']\<rparr>) \<and>
   partition_label pg_exec ''my_graph'' ''Person'' (new_conn stale_db)
     = (Restored,
        \<lparr>database = [(person_table, None, [9])],
         executed = [CreateTableAs person_temp person_table,
                     DropTableIfExists person_table,
                     RenameTable person_temp ''person'']\<rparr>)"
  by code_simp

text \<open>
  For every cursor: when the copy raises, the next statement executed is the drop of the
  original table.
\<close>

lemma failed_copy_runs_handler:
  assumes "ex (CreateTableAs (g, lower l @ ''_temp'') (g, lower l)) (database c) = Inl e"
  shows "\<exists>rest. executed (snd (partition_label ex g l c)) =
           executed c @ [CreateTableAs (g, lower l @ ''_temp'') (g, lower l),
                         DropTableIfExists (g, lower l)] @ rest"
  using assms
  by (auto simp: partition_label_def partition_statements_def restore_from_backup_def sql_execute_def
      Let_def split: sum.splits prod.splits option.splits bool.splits)

text \<open>The loop over the labels goes on after a label whose reorganisation failed.\<close>

lemma length_partition_labels: "length (fst (partition_labels ex g labels c)) = length labels"
  by (induction labels arbitrary: c) (simp_all add: split_beta)

lemma partition_large_labels:
  "fst (partition_labels (sql_failing_on [CreateTableAs person_temp person_table] pg_exec) ''my_graph''
          LARGE_VERTEX_LABELS (new_conn (person_db @ [((''my_graph'', ''product''), None, [7])])))
     = [RestoreFailed, Partitioned]"
  by code_simp

text \<open>
  Claim C7 as stated fails: when the \<^verbatim>\<open>DROP TABLE IF EXISTS\<close> of the handler raises, the handler
  is left, and the rename of the shadow table is not executed.
\<close>

theorem restore_skips_rename_cex:
  "snd (restore_from_backup (sql_failing_on [DropTableIfExists person_table] pg_exec)
          person_table person_temp ''Person'' (new_conn stale_db))
     = \<lparr>database = stale_db, executed = [DropTableIfExists person_table]\<rparr>"
  by code_simp

text \<open>
  Claim C7, as amended: the rollback executes the drop of the new table first and the rename of
  the shadow table only when the drop has succeeded. When the drop raises, the drop is the only
  statement executed, the exception is swallowed, and the database is as the failed drop left
  it.
\<close>

theorem restore_renames_only_after_drop:
  "executed (snd (restore_from_backup ex table_name temp_table lbl c)) =
     executed c @
       (case ex (DropTableIfExists table_name) (database c) of
          Inl e \<Rightarrow> [DropTableIfExists table_name]
        | Inr r \<Rightarrow> [DropTableIfExists table_name, RenameTable temp_table (lower lbl)]) \<and>
   database (snd (restore_from_backup ex table_name temp_table lbl c)) =
       (case ex (DropTableIfExists table_name) (database c) of
          Inl e \<Rightarrow> database c
        | Inr r \<Rightarrow> (case ex (RenameTable temp_table (lower lbl)) (fst r) of
                      Inl e \<Rightarrow> fst r | Inr r' \<Rightarrow> fst r'))"
  by (simp add: restore_from_backup_def sql_execute_def split: sum.splits prod.splits)

lemma lower_person: "lower ''Person'' = ''person''"
  by code_simp

text \<open>Claim C7, as amended, on the reference database, with a failing and a working drop.\<close>

theorem restore_renames_only_after_drop_witness:
  "executed (snd (restore_from_backup (sql_failing_on [DropTableIfExists person_table] pg_exec)
                    person_table person_temp ''Person'' (new_conn stale_db)))
     = [DropTableIfExists person_table] \<and>
   executed (snd (restore_from_backup pg_exec person_table person_temp ''Person'' (new_conn stale_db)))
     = [DropTableIfExists person_table, RenameTable person_temp ''person'']"
  using restore_renames_only_after_drop
          [of "sql_failing_on [DropTableIfExists person_table] pg_exec" person_table person_temp
              "''Person''" "new_conn stale_db"]
        restore_renames_only_after_drop
          [of pg_exec person_table person_temp "''Person''" "new_conn stale_db"]
  by (simp add: sql_failing_on_def new_conn_def lower_person)

section \<open>Properties of the partition maintenance\<close>

lemma cleanup_loop_warned:
  "(p, y) \<in> set (fst (cleanup_loop int_of cutoff partitions)) \<Longrightarrow>
   y < cutoff \<and> p \<in> snd ` set partitions \<and> int_of (last (split_y [] p)) = Some y"
  by (induction int_of cutoff partitions rule: cleanup_loop.induct)
     (auto simp: split_beta split: option.splits if_splits)

text \<open>
  Claim C9: \<^verbatim>\<open>cleanup_old_date_partitions\<close> is read-only. For every cursor, table and number of
  years to keep, the listing of the partitions is the only statement it executes (there is no
  drop and no delete); on the reference database it leaves every table and every row as it was;
  and every partition it reports has a year below the cutoff.
\<close>

theorem cleanup_is_read_only:
  "executed (connection (cleanup_old_date_partitions ex int_of current_year graph table_name keep_years c))
     = executed c @ [SelectPartitions graph table_name] \<and>
   database (connection (cleanup_old_date_partitions pg_exec int_of current_year graph table_name keep_years c'))
     = database c' \<and>
   (\<forall>py \<in> set (warned (cleanup_old_date_partitions ex int_of current_year graph table_name keep_years c)).
      snd py < current_year - keep_years \<and> int_of (last (split_y [] (fst py))) = Some (snd py))"
proof -
  have a: "executed (connection (cleanup_old_date_partitions ex int_of current_year graph table_name keep_years c))
     = executed c @ [SelectPartitions graph table_name]"
    by (simp add: cleanup_old_date_partitions_def sql_execute_def split_beta Let_def split: sum.splits)
  have b: "database (connection (cleanup_old_date_partitions pg_exec int_of current_year graph table_name keep_years c'))
     = database c'"
    by (simp add: cleanup_old_date_partitions_def sql_execute_def split_beta Let_def)
  have d: "\<forall>py \<in> set (warned (cleanup_old_date_partitions ex int_of current_year graph table_name keep_years c)).
      snd py < current_year - keep_years \<and> int_of (last (split_y [] (fst py))) = Some (snd py)"
    using cleanup_loop_warned [of _ _ int_of "current_year - keep_years"]
    by (auto simp: cleanup_old_date_partitions_def sql_execute_def split_beta Let_def split: sum.splits)
  show ?thesis using a b d by blast
qed

text \<open>
  With 2026 as the current year and three years to keep, only the partition of 2020 is reported.
\<close>

lemma cleanup_sample:
  "warned (cleanup_old_date_partitions pg_exec year_of 2026 ''my_graph'' ''person'' 3 (new_conn yearly_db))
     = [(''person_y2020'', 2020)] \<and>
   unparsed (cleanup_old_date_partitions pg_exec year_of 2026 ''my_graph'' ''person'' 3 (new_conn yearly_db))
     = [''person_yold''] \<and>
   connection (cleanup_old_date_partitions pg_exec year_of 2026 ''my_graph'' ''person'' 3 (new_conn yearly_db))
     = \<lparr>database = yearly_db, executed = [SelectPartitions ''my_graph'' ''person'']\<rparr>"
  by code_simp

text \<open>Claim C9 on that database.\<close>

theorem cleanup_is_read_only_witness:
  "list_all (\<lambda>py. snd py < 2026 - 3 \<and> year_of (last (split_y [] (fst py))) = Some (snd py))
     (warned (cleanup_old_date_partitions pg_exec year_of 2026 ''my_graph'' ''person'' 3
                (new_conn yearly_db))) \<and>
   warned (cleanup_old_date_partitions pg_exec year_of 2026 ''my_graph'' ''person'' 3 (new_conn yearly_db))
     = [(''person_y2020'', 2020)] \<and>
   connection (cleanup_old_date_partitions pg_exec year_of 2026 ''my_graph'' ''person'' 3 (new_conn yearly_db))
     = \<lparr>database = yearly_db, executed = [SelectPartitions ''my_graph'' ''person'']\<rparr>"
  using cleanup_is_read_only [of pg_exec year_of 2026 "''my_graph''" "''person''" 3 "new_conn yearly_db"]
        cleanup_sample
  unfolding list_all_iff
  by blast

end
